theory Spec2Isabelle
  imports Main
begin

section \<open>Text\<close>

text \<open>
  A Python \<open>str\<close> is modelled as a \<^typ>\<open>string\<close>: the list of the bytes of its UTF-8
  encoding. The messages of the source that hold accented letters are written with
  their bytes (\<open>CHR 0xC3, CHR 0xA3\<close> is the letter a with a tilde). The character
  classes below are Python's on the ASCII range, where the headers and the DNS
  records of the program live; a byte above \<open>0x7F\<close> is in none of them and has no
  lower case. (Python itself classes some code points beyond ASCII as letters, digits,
  spaces or line breaks.)
\<close>

definition is_space :: "char \<Rightarrow> bool" where
  \<comment> \<open>\<open>str.isspace\<close> on one character, and the class \<open>\s\<close>\<close>
  "is_space c = (let n = (of_char c :: nat) in (9 \<le> n \<and> n \<le> 13) \<or> (28 \<le> n \<and> n \<le> 32))"

definition is_word :: "char \<Rightarrow> bool" where
  \<comment> \<open>the class \<open>\w\<close>\<close>
  "is_word c = (let n = (of_char c :: nat) in
     (48 \<le> n \<and> n \<le> 57) \<or> (65 \<le> n \<and> n \<le> 90) \<or> n = 95 \<or> (97 \<le> n \<and> n \<le> 122))"

definition is_digit :: "char \<Rightarrow> bool" where
  \<comment> \<open>the class \<open>\d\<close>\<close>
  "is_digit c = (let n = (of_char c :: nat) in 48 \<le> n \<and> n \<le> 57)"

definition lower_char :: "char \<Rightarrow> char" where
  "lower_char c = (let n = (of_char c :: nat) in if 65 \<le> n \<and> n \<le> 90 then char_of (n + 32) else c)"

definition lower :: "string \<Rightarrow> string" where
  \<comment> \<open>\<open>str.lower\<close>\<close>
  "lower s = map lower_char s"

definition strip_chars :: "(char \<Rightarrow> bool) \<Rightarrow> string \<Rightarrow> string" where
  "strip_chars P s = rev (dropWhile P (rev (dropWhile P s)))"

definition strip :: "string \<Rightarrow> string" where
  \<comment> \<open>\<open>str.strip()\<close>: white space removed at both ends\<close>
  "strip s = strip_chars is_space s"

definition strip_quotes :: "string \<Rightarrow> string" where
  \<comment> \<open>\<open>str.strip('"')\<close>: double quotes removed at both ends\<close>
  "strip_quotes s = strip_chars (\<lambda>c. c = CHR 0x22) s"

definition startswith :: "string \<Rightarrow> string \<Rightarrow> bool" where
  \<comment> \<open>\<open>s.startswith(p)\<close>\<close>
  "startswith s p = (take (length p) s = p)"

fun contains :: "string \<Rightarrow> string \<Rightarrow> bool" where
  \<comment> \<open>\<open>sub in s\<close>, written \<open>contains s sub\<close>\<close>
  "contains [] sub = (sub = [])"
| "contains (c # cs) sub = (startswith (c # cs) sub \<or> contains cs sub)"

definition split1 :: "char \<Rightarrow> string \<Rightarrow> string list" where
  \<comment> \<open>\<open>s.split(sep, 1)\<close> for a separator of one character\<close>
  "split1 sep s =
     (if sep \<in> set s
      then [takeWhile (\<lambda>c. c \<noteq> sep) s, drop 1 (dropWhile (\<lambda>c. c \<noteq> sep) s)]
      else [s])"

definition is_linebreak :: "char \<Rightarrow> bool" where
  \<comment> \<open>the line boundaries of \<open>str.splitlines\<close> other than carriage return\<close>
  "is_linebreak c = (let n = (of_char c :: nat) in (10 \<le> n \<and> n \<le> 12) \<or> (28 \<le> n \<and> n \<le> 30))"

fun splitlines_from :: "string \<Rightarrow> string \<Rightarrow> string list" where
  "splitlines_from cur [] = (if cur = [] then [] else [cur])"
| "splitlines_from cur (c # cs) =
     (if c = CHR 0x0D then
        (case cs of
           d # ds \<Rightarrow> if d = CHR 0x0A then cur # splitlines_from [] ds
                     else cur # splitlines_from [] cs
         | [] \<Rightarrow> cur # splitlines_from [] cs)
      else if is_linebreak c then cur # splitlines_from [] cs
      else splitlines_from (cur @ [c]) cs)"

definition splitlines :: "string \<Rightarrow> string list" where
  \<comment> \<open>\<open>str.splitlines()\<close>: the line breaks are dropped, \<open>\r\n\<close> is one break, and
      a break at the very end opens no empty last line\<close>
  "splitlines s = splitlines_from [] s"

function replace :: "string \<Rightarrow> string \<Rightarrow> string \<Rightarrow> string" where
  \<comment> \<open>\<open>s.replace(old, new)\<close>, written \<open>replace old new s\<close>: the occurrences of
      \<open>old\<close> from the left, without overlap\<close>
  "replace old new s =
     (if old = [] then new @ concat (map (\<lambda>c. c # new) s)
      else if s = [] then []
      else if startswith s old then new @ replace old new (drop (length old) s)
      else hd s # replace old new (tl s))"
  by pat_completeness auto
termination
  by (relation "measure (\<lambda>(old, new, s). length s)") auto

fun digit_of :: "nat \<Rightarrow> char" where
  "digit_of n = char_of (48 + n mod 10)"

function str_of_nat :: "nat \<Rightarrow> string" where
  \<comment> \<open>\<open>str(n)\<close> of a non-negative integer\<close>
  "str_of_nat n = (if n < 10 then [digit_of n] else str_of_nat (n div 10) @ [digit_of n])"
  by pat_completeness auto
termination
  by (relation "measure id") auto

definition int_of_digits :: "string \<Rightarrow> nat" where
  \<comment> \<open>\<open>int(s)\<close> of a string of decimal digits\<close>
  "int_of_digits s = foldl (\<lambda>n c. 10 * n + ((of_char c :: nat) - 48)) 0 s"

definition truthy :: "string option \<Rightarrow> bool" where
  \<comment> \<open>the truth value of an optional string: \<open>None\<close> and \<open>""\<close> are false\<close>
  "truthy v = (case v of None \<Rightarrow> False | Some s \<Rightarrow> s \<noteq> [])"

definition str_of_opt :: "string option \<Rightarrow> string" where
  \<comment> \<open>an optional string put into an f-string: \<open>None\<close> prints as its name\<close>
  "str_of_opt v = (case v of None \<Rightarrow> ''None'' | Some s \<Rightarrow> s)"

section \<open>Regular expressions\<close>

text \<open>
  The patterns of the source use literal characters, character classes, the greedy
  \<open>+\<close> and \<open>?\<close> and the lazy \<open>*?\<close> on one class, groups, \<open>^\<close> and \<open>$\<close>.
  A pattern is the list of its items. As in the compiled form of a Python pattern, the
  parentheses of group \<open>k\<close> are the marks \<open>2k - 2\<close> (opening) and \<open>2k - 1\<close>
  (closing); a mark stores the position at which the match passes it.

  \<open>rmatch\<close> is the backtracking matcher at one start position: a greedy item tries
  the longer match first, a lazy one the shorter, and the first alternative under which
  the rest of the pattern matches is taken. \<open>re_search\<close> tries the start positions
  from the left, the end of the text included.
\<close>

datatype rx =
    Ch "char \<Rightarrow> bool"
  | Plus "char \<Rightarrow> bool"
  | LazyStar "char \<Rightarrow> bool"
  | Opt "char \<Rightarrow> bool"
  | Mark nat
  | Bos
  | Eos

type_synonym marks = "nat \<rightharpoonup> nat"

fun rmatch :: "rx list \<Rightarrow> string \<Rightarrow> nat \<Rightarrow> marks \<Rightarrow> marks option" where
  "rmatch [] s p g = Some g"
| "rmatch (Ch P # r) [] p g = None"
| "rmatch (Ch P # r) (c # cs) p g = (if P c then rmatch r cs (Suc p) g else None)"
| "rmatch (Plus P # r) [] p g = None"
| "rmatch (Plus P # r) (c # cs) p g =
     (if P c then
        (case rmatch (Plus P # r) cs (Suc p) g of
           Some m \<Rightarrow> Some m
         | None \<Rightarrow> rmatch r cs (Suc p) g)
      else None)"
| "rmatch (LazyStar P # r) [] p g = rmatch r [] p g"
| "rmatch (LazyStar P # r) (c # cs) p g =
     (case rmatch r (c # cs) p g of
        Some m \<Rightarrow> Some m
      | None \<Rightarrow> if P c then rmatch (LazyStar P # r) cs (Suc p) g else None)"
| "rmatch (Opt P # r) [] p g = rmatch r [] p g"
| "rmatch (Opt P # r) (c # cs) p g =
     (if P c then
        (case rmatch r cs (Suc p) g of
           Some m \<Rightarrow> Some m
         | None \<Rightarrow> rmatch r (c # cs) p g)
      else rmatch r (c # cs) p g)"
| "rmatch (Mark i # r) s p g = rmatch r s p (g(i \<mapsto> p))"
| "rmatch (Bos # r) s p g = (if p = 0 then rmatch r s p g else None)"
| "rmatch (Eos # r) s p g = (if s = [] \<or> s = [CHR 0x0A] then rmatch r s p g else None)"

fun rsearch_from :: "rx list \<Rightarrow> string \<Rightarrow> nat \<Rightarrow> marks option" where
  "rsearch_from r [] p = rmatch r [] p Map.empty"
| "rsearch_from r (c # cs) p =
     (case rmatch r (c # cs) p Map.empty of
        Some m \<Rightarrow> Some m
      | None \<Rightarrow> rsearch_from r cs (Suc p))"

definition re_search :: "rx list \<Rightarrow> string \<Rightarrow> marks option" where
  \<comment> \<open>\<open>re.search(pattern, s)\<close>: the match object, or \<open>None\<close>\<close>
  "re_search r s = rsearch_from r s 0"

definition match_group :: "string \<Rightarrow> marks \<Rightarrow> nat \<Rightarrow> string" where
  \<comment> \<open>\<open>match.group(k)\<close> for a group that took part in the match (every group of the
      patterns below does: none stands under a \<open>?\<close> or in an alternative)\<close>
  "match_group s m k =
     (case (m (2 * k - 2), m (2 * k - 1)) of
        (Some a, Some b) \<Rightarrow> take (b - a) (drop a s)
      | _ \<Rightarrow> [])"

definition lit :: "string \<Rightarrow> rx list" where
  \<comment> \<open>a run of literal characters\<close>
  "lit s = map (\<lambda>c. Ch (\<lambda>x. x = c)) s"

definition any_char :: "char \<Rightarrow> bool" where
  \<comment> \<open>the dot: any character but a newline\<close>
  "any_char c = (c \<noteq> CHR 0x0A)"

section \<open>Accented letters of the messages\<close>

definition a_tilde :: string where "a_tilde = [CHR 0xC3, CHR 0xA3]"
definition a_acute :: string where "a_acute = [CHR 0xC3, CHR 0xA1]"
definition c_cedilla :: string where "c_cedilla = [CHR 0xC3, CHR 0xA7]"
definition e_acute :: string where "e_acute = [CHR 0xC3, CHR 0xA9]"
definition i_acute :: string where "i_acute = [CHR 0xC3, CHR 0xAD]"
definition o_acute :: string where "o_acute = [CHR 0xC3, CHR 0xB3]"
definition u_acute :: string where "u_acute = [CHR 0xC3, CHR 0xBA]"
definition not_equal_sign :: string where "not_equal_sign = [CHR 0xE2, CHR 0x89, CHR 0xA0]"
definition quote :: string where "quote = [CHR 0x27]"
definition dquote :: string where "dquote = [CHR 0x22]"

section \<open>The header analyzer: \<open>EmailHeaderAnalyzer\<close>\<close>

text \<open>
  \<open>self.results\<close> is a dictionary of fixed keys; it is a record, each nested
  dictionary a record of its own. A field is named after its key (\<open>from\<close> is
  \<open>h_from\<close>, and the top-level keys carry the prefix \<open>a_\<close>). \<open>self.verbose\<close>
  only switches printing on and is left out.
\<close>

record verdict =
  result :: string
  explanation :: string

record dkim_verdict = verdict +
  selector :: string

record authentication =
  spf :: "verdict option"
  dkim :: "dkim_verdict option"
  dmarc :: "verdict option"
  arc :: "verdict option"

record headers =
  h_from :: "string option"
  return_path :: "string option"
  sender :: "string option"
  received_spf :: "string option"
  authentication_results :: "string list"

record analysis =
  a_timestamp :: string
  a_authentication :: authentication
  a_headers :: headers
  a_issues :: "string list"
  a_recommendations :: "string list"

definition analyzer_init :: "string \<Rightarrow> analysis" where
  \<comment> \<open>\<open>__init__\<close>; the argument is \<open>datetime.now().isoformat()\<close>\<close>
  "analyzer_init now =
     \<lparr>a_timestamp = now,
      a_authentication = \<lparr>spf = None, dkim = None, dmarc = None, arc = None\<rparr>,
      a_headers = \<lparr>h_from = None, return_path = None, sender = None, received_spf = None,
                   authentication_results = []\<rparr>,
      a_issues = [],
      a_recommendations = []\<rparr>"

subsection \<open>\<open>_save_header_field\<close> and \<open>_extract_header_fields\<close>\<close>

definition save_header_field :: "string \<Rightarrow> string \<Rightarrow> analysis \<Rightarrow> analysis" where
  "save_header_field field v r =
     (if field = ''from'' then r\<lparr>a_headers := (a_headers r)\<lparr>h_from := Some v\<rparr>\<rparr>
      else if field = ''return-path'' then r\<lparr>a_headers := (a_headers r)\<lparr>return_path := Some v\<rparr>\<rparr>
      else if field = ''sender'' then r\<lparr>a_headers := (a_headers r)\<lparr>sender := Some v\<rparr>\<rparr>
      else if field = ''received-spf'' then r\<lparr>a_headers := (a_headers r)\<lparr>received_spf := Some v\<rparr>\<rparr>
      else if field = ''authentication-results'' then
        r\<lparr>a_headers := (a_headers r)
             \<lparr>authentication_results := authentication_results (a_headers r) @ [v]\<rparr>\<rparr>
      else if field = ''arc-authentication-results'' then
        r\<lparr>a_headers := (a_headers r)
             \<lparr>authentication_results := authentication_results (a_headers r) @ [''ARC: '' @ v]\<rparr>\<rparr>
      else r)"

definition save_current :: "string option \<Rightarrow> string \<Rightarrow> analysis \<Rightarrow> analysis" where
  \<comment> \<open>\<open>if current_field: self._save_header_field(current_field, current_value)\<close>\<close>
  "save_current current_field current_value r =
     (case current_field of
        None \<Rightarrow> r
      | Some f \<Rightarrow> if f \<noteq> [] then save_header_field f current_value r else r)"

type_synonym extractor = "string option \<times> string \<times> analysis"

definition header_line :: "string \<Rightarrow> extractor \<Rightarrow> extractor" where
  \<comment> \<open>the body of the loop over the lines; the state is \<open>current_field\<close>,
      \<open>current_value\<close> and the results\<close>
  "header_line line st =
     (case st of (current_field, current_value, r) \<Rightarrow>
        if strip line = [] then st
        else
          (case line of
             [] \<Rightarrow> st
           | c # _ \<Rightarrow>
               if is_space c then
                 (if truthy current_field
                  then (current_field, current_value @ '' '' @ strip line, r)
                  else st)
               else
                 (let r' = save_current current_field current_value r in
                  case split1 (CHR '':'') line of
                    [name, v] \<Rightarrow> (Some (lower name), strip v, r')
                  | _ \<Rightarrow> (None, [], r'))))"

definition header_lines :: "string list \<Rightarrow> extractor \<Rightarrow> extractor" where
  "header_lines lines st = foldl (\<lambda>st line. header_line line st) st lines"

definition extract_header_fields :: "string list \<Rightarrow> analysis \<Rightarrow> analysis" where
  "extract_header_fields lines r =
     (case header_lines lines (None, [], r) of
        (current_field, current_value, r') \<Rightarrow> save_current current_field current_value r')"

subsection \<open>The patterns\<close>

definition re_leading_word :: "rx list" where
  \<comment> \<open>\<open>^(\w+)\<close>\<close>
  "re_leading_word = [Bos, Mark 0, Plus is_word, Mark 1]"

definition re_parenthesis :: "rx list" where
  \<comment> \<open>\<open>\((.*?)\)\<close>\<close>
  "re_parenthesis =
     [Ch (\<lambda>c. c = CHR ''(''), Mark 0, LazyStar any_char, Mark 1, Ch (\<lambda>c. c = CHR '')'')]"

definition re_mechanism :: "string \<Rightarrow> rx list" where
  \<comment> \<open>\<open>spf=(\w+)\<close>, \<open>dkim=(\w+)\<close>, \<open>dmarc=(\w+)\<close>, \<open>arc=(\w+)\<close>\<close>
  "re_mechanism name = lit (name @ ''='') @ [Mark 0, Plus is_word, Mark 1]"

definition re_reason :: "string \<Rightarrow> rx list" where
  \<comment> \<open>\<open>spf=\w+\s+\((.*?)\)\<close>, and the same for \<open>dkim\<close>, \<open>dmarc\<close>, \<open>arc\<close>\<close>
  "re_reason name =
     lit (name @ ''='') @
     [Plus is_word, Plus is_space, Ch (\<lambda>c. c = CHR ''(''), Mark 0, LazyStar any_char, Mark 1,
      Ch (\<lambda>c. c = CHR '')'')]"

definition re_selector :: "rx list" where
  \<comment> \<open>\<open>dkim=\w+.*?header\.\w+=(\S+)\<close>\<close>
  "re_selector =
     lit ''dkim='' @ [Plus is_word, LazyStar any_char] @ lit ''header.'' @
     [Plus is_word, Ch (\<lambda>c. c = CHR ''=''), Mark 0, Plus (\<lambda>c. \<not> is_space c), Mark 1]"

definition is_addr :: "char \<Rightarrow> bool" where
  \<comment> \<open>the class \<open>[\w.-]\<close>\<close>
  "is_addr c = (is_word c \<or> c = CHR ''.'' \<or> c = CHR ''-'')"

definition re_email :: "rx list" where
  \<comment> \<open>\<open><?([\w.-]+@([\w.-]+))>?\<close>\<close>
  "re_email =
     [Opt (\<lambda>c. c = CHR ''<''), Mark 0, Plus is_addr, Ch (\<lambda>c. c = CHR ''@''),
      Mark 2, Plus is_addr, Mark 3, Mark 1, Opt (\<lambda>c. c = CHR ''>'')]"

subsection \<open>\<open>_extract_spf_from_received_spf\<close>\<close>

definition extract_spf_from_received_spf :: "analysis \<Rightarrow> verdict option" where
  \<comment> \<open>called only where \<open>received_spf\<close> is true, so not \<open>None\<close>: that branch of
      the model returns \<open>None\<close> and is never taken\<close>
  "extract_spf_from_received_spf r =
     (case received_spf (a_headers r) of
        None \<Rightarrow> None
      | Some spf_text \<Rightarrow>
          (case re_search re_leading_word spf_text of
             None \<Rightarrow> None
           | Some result_match \<Rightarrow>
               Some \<lparr>result = lower (match_group spf_text result_match 1),
                     explanation =
                       (case re_search re_parenthesis spf_text of
                          Some reason_match \<Rightarrow> match_group spf_text reason_match 1
                        | None \<Rightarrow> [])\<rparr>))"

subsection \<open>\<open>_extract_from_authentication_results\<close>\<close>

definition reason_of :: "string \<Rightarrow> string \<Rightarrow> string" where
  \<comment> \<open>\<open>explanation\<close>: the parenthesis after the token, or the empty string\<close>
  "reason_of name auth_result =
     (case re_search (re_reason name) auth_result of
        Some reason_match \<Rightarrow> match_group auth_result reason_match 1
      | None \<Rightarrow> [])"

definition selector_of :: "string \<Rightarrow> string" where
  "selector_of auth_result =
     (case re_search re_selector auth_result of
        Some selector_match \<Rightarrow> match_group auth_result selector_match 1
      | None \<Rightarrow> [])"

definition extract_spf :: "string \<Rightarrow> analysis \<Rightarrow> analysis" where
  "extract_spf auth_result r =
     (case re_search (re_mechanism ''spf'') auth_result of
        Some spf_match \<Rightarrow>
          if spf (a_authentication r) = None then
            r\<lparr>a_authentication := (a_authentication r)
                 \<lparr>spf := Some \<lparr>result = lower (match_group auth_result spf_match 1),
                                explanation = reason_of ''spf'' auth_result\<rparr>\<rparr>\<rparr>
          else r
      | None \<Rightarrow> r)"

definition extract_dkim :: "string \<Rightarrow> analysis \<Rightarrow> analysis" where
  "extract_dkim auth_result r =
     (case re_search (re_mechanism ''dkim'') auth_result of
        Some dkim_match \<Rightarrow>
          r\<lparr>a_authentication := (a_authentication r)
               \<lparr>dkim := Some \<lparr>result = lower (match_group auth_result dkim_match 1),
                               explanation = reason_of ''dkim'' auth_result,
                               selector = selector_of auth_result\<rparr>\<rparr>\<rparr>
      | None \<Rightarrow> r)"

definition extract_dmarc :: "string \<Rightarrow> analysis \<Rightarrow> analysis" where
  "extract_dmarc auth_result r =
     (case re_search (re_mechanism ''dmarc'') auth_result of
        Some dmarc_match \<Rightarrow>
          r\<lparr>a_authentication := (a_authentication r)
               \<lparr>dmarc := Some \<lparr>result = lower (match_group auth_result dmarc_match 1),
                                explanation = reason_of ''dmarc'' auth_result\<rparr>\<rparr>\<rparr>
      | None \<Rightarrow> r)"

definition extract_arc :: "string \<Rightarrow> analysis \<Rightarrow> analysis" where
  "extract_arc auth_result r =
     (case re_search (re_mechanism ''arc'') auth_result of
        Some arc_match \<Rightarrow>
          r\<lparr>a_authentication := (a_authentication r)
               \<lparr>arc := Some \<lparr>result = lower (match_group auth_result arc_match 1),
                              explanation = reason_of ''arc'' auth_result\<rparr>\<rparr>\<rparr>
      | None \<Rightarrow> r)"

definition extract_from_authentication_results :: "string \<Rightarrow> analysis \<Rightarrow> analysis" where
  "extract_from_authentication_results auth_result r =
     extract_arc auth_result
       (extract_dmarc auth_result (extract_dkim auth_result (extract_spf auth_result r)))"

subsection \<open>\<open>_extract_domain_from_email\<close>\<close>

definition extract_domain_from_email :: "string option \<Rightarrow> string option" where
  "extract_domain_from_email email_header =
     (case email_header of
        None \<Rightarrow> None
      | Some h \<Rightarrow>
          if h = [] then None
          else
            (case re_search re_email h of
               Some email_match \<Rightarrow> Some (match_group h email_match 2)
             | None \<Rightarrow> None))"

subsection \<open>\<open>_identify_issues\<close>\<close>

definition spf_missing :: string where
  "spf_missing = ''SPF n'' @ a_tilde @ ''o encontrado nos cabe'' @ c_cedilla @ ''alhos''"

definition dkim_missing :: string where
  "dkim_missing = ''DKIM n'' @ a_tilde @ ''o encontrado nos cabe'' @ c_cedilla @ ''alhos''"

definition dmarc_missing :: string where
  "dmarc_missing = ''DMARC n'' @ a_tilde @ ''o encontrado nos cabe'' @ c_cedilla @ ''alhos''"

definition failure :: "string \<Rightarrow> string \<Rightarrow> string \<Rightarrow> string" where
  \<comment> \<open>\<open>f"Falha de SPF: {result} - {explanation}"\<close>, and the same for DKIM and DMARC\<close>
  "failure name res expl = ''Falha de '' @ name @ '': '' @ res @ '' - '' @ expl"

definition mismatch :: "string \<Rightarrow> string \<Rightarrow> string" where
  \<comment> \<open>the message of the alignment check, with the two domains\<close>
  "mismatch from_domain return_path_domain =
     ''Desalinhamento de dom'' @ i_acute @ ''nio: From ('' @ from_domain @ '') '' @
     not_equal_sign @ '' Return-Path ('' @ return_path_domain @ '')''"

definition spf_issues :: "analysis \<Rightarrow> string list" where
  "spf_issues r =
     (case spf (a_authentication r) of
        None \<Rightarrow> [spf_missing]
      | Some v \<Rightarrow> if result v \<noteq> ''pass'' then [failure ''SPF'' (result v) (explanation v)] else [])"

definition dkim_issues :: "analysis \<Rightarrow> string list" where
  "dkim_issues r =
     (case dkim (a_authentication r) of
        None \<Rightarrow> [dkim_missing]
      | Some v \<Rightarrow> if result v \<noteq> ''pass'' then [failure ''DKIM'' (result v) (explanation v)] else [])"

definition dmarc_issues :: "analysis \<Rightarrow> string list" where
  "dmarc_issues r =
     (case dmarc (a_authentication r) of
        None \<Rightarrow> [dmarc_missing]
      | Some v \<Rightarrow> if result v \<noteq> ''pass'' then [failure ''DMARC'' (result v) (explanation v)] else [])"

definition alignment_issues :: "analysis \<Rightarrow> string list" where
  \<comment> \<open>\<open>if from_domain and return_path_domain and from_domain != return_path_domain\<close>\<close>
  "alignment_issues r =
     (let from_domain = extract_domain_from_email (h_from (a_headers r));
          return_path_domain = extract_domain_from_email (return_path (a_headers r))
      in case (from_domain, return_path_domain) of
           (Some f, Some p) \<Rightarrow> if f \<noteq> [] \<and> p \<noteq> [] \<and> f \<noteq> p then [mismatch f p] else []
         | _ \<Rightarrow> [])"

definition identify_issues :: "analysis \<Rightarrow> analysis" where
  \<comment> \<open>the four checks append to \<open>issues\<close> in this order\<close>
  "identify_issues r =
     r\<lparr>a_issues := a_issues r @ spf_issues r @ dkim_issues r @ dmarc_issues r @ alignment_issues r\<rparr>"

subsection \<open>\<open>_analyze_authentication\<close>\<close>

definition analyze_received_spf :: "analysis \<Rightarrow> analysis" where
  \<comment> \<open>\<open>if self.results["headers"]["received_spf"]: ...\<close>\<close>
  "analyze_received_spf r =
     (if truthy (received_spf (a_headers r))
      then r\<lparr>a_authentication := (a_authentication r)\<lparr>spf := extract_spf_from_received_spf r\<rparr>\<rparr>
      else r)"

definition analyze_occurrences :: "string list \<Rightarrow> analysis \<Rightarrow> analysis" where
  \<comment> \<open>the loop over the retained occurrences, in their order\<close>
  "analyze_occurrences occs r = foldl (\<lambda>r auth_result. extract_from_authentication_results auth_result r) r occs"

definition analyze_authentication :: "analysis \<Rightarrow> analysis" where
  "analyze_authentication r =
     (let r1 = analyze_received_spf r
      in identify_issues (analyze_occurrences (authentication_results (a_headers r1)) r1))"

subsection \<open>\<open>_generate_recommendations\<close>\<close>

definition generate_recommendations :: "analysis \<Rightarrow> analysis" where
  "generate_recommendations r =
     (let spf_issue = (\<exists>issue \<in> set (a_issues r). contains issue ''SPF'');
          dkim_issue = (\<exists>issue \<in> set (a_issues r). contains issue ''DKIM'');
          dmarc_issue = (\<exists>issue \<in> set (a_issues r). contains issue ''DMARC'');
          from_domain = extract_domain_from_email (h_from (a_headers r));
          d = str_of_opt from_domain
      in r\<lparr>a_recommendations := a_recommendations r @
           (if spf_issue \<and> truthy from_domain then
              [''Verifique seu registro SPF para '' @ d @
               '' e certifique-se de que include:spf.protection.outlook.com est'' @ a_acute @
               '' inclu'' @ i_acute @ ''do'',
               ''Registro SPF recomendado: v=spf1 include:spf.protection.outlook.com -all'']
            else []) @
           (if dkim_issue \<and> truthy from_domain then
              [''Verifique se o DKIM est'' @ a_acute @ '' habilitado para '' @ d @
               '' no Microsoft 365 e se os registros CNAME para selector1._domainkey e '' @
               ''selector2._domainkey est'' @ a_tilde @ ''o configurados'']
            else []) @
           (if dmarc_issue \<and> truthy from_domain then
              [''Configure um registro DMARC para '' @ d @ '': _dmarc.'' @ d @ '' TXT '' @
               dquote @ ''v=DMARC1; p=quarantine; rua=mailto:admin@'' @ d @ dquote]
            else []) @
           (if spf_issue \<or> dkim_issue \<or> dmarc_issue then
              [''Use o script principal deste projeto para analisar todos os registros DNS: '' @
               ''python email_auth_fix.py '' @ d @ '' -v'']
            else [])\<rparr>)"

subsection \<open>\<open>analyze_header\<close> and \<open>export_json\<close>\<close>

definition analyze_header :: "string \<Rightarrow> analysis \<Rightarrow> analysis" where
  "analyze_header header_text r =
     generate_recommendations (analyze_authentication (extract_header_fields (splitlines header_text) r))"

datatype json =
    JNull
  | JString string
  | JArray "json list"
  | JObject "(string \<times> json) list"

definition json_opt :: "string option \<Rightarrow> json" where
  "json_opt v = (case v of None \<Rightarrow> JNull | Some s \<Rightarrow> JString s)"

definition json_strings :: "string list \<Rightarrow> json" where
  "json_strings xs = JArray (map JString xs)"

definition json_verdict :: "verdict option \<Rightarrow> json" where
  "json_verdict v =
     (case v of
        None \<Rightarrow> JNull
      | Some d \<Rightarrow> JObject [(''result'', JString (result d)), (''explanation'', JString (explanation d))])"

definition json_dkim_verdict :: "dkim_verdict option \<Rightarrow> json" where
  "json_dkim_verdict v =
     (case v of
        None \<Rightarrow> JNull
      | Some d \<Rightarrow>
          JObject [(''result'', JString (result d)), (''explanation'', JString (explanation d)),
                   (''selector'', JString (selector d))])"

definition analysis_json :: "analysis \<Rightarrow> json" where
  \<comment> \<open>what \<open>export_json\<close> dumps: the dictionary \<open>self.results\<close>, its keys in the order
      in which \<open>__init__\<close> wrote them\<close>
  "analysis_json r =
     JObject
       [(''timestamp'', JString (a_timestamp r)),
        (''authentication'',
           JObject [(''spf'', json_verdict (spf (a_authentication r))),
                    (''dkim'', json_dkim_verdict (dkim (a_authentication r))),
                    (''dmarc'', json_verdict (dmarc (a_authentication r))),
                    (''arc'', json_verdict (arc (a_authentication r)))]),
        (''headers'',
           JObject [(''from'', json_opt (h_from (a_headers r))),
                    (''return_path'', json_opt (return_path (a_headers r))),
                    (''sender'', json_opt (sender (a_headers r))),
                    (''received_spf'', json_opt (received_spf (a_headers r))),
                    (''authentication_results'',
                       json_strings (authentication_results (a_headers r)))]),
        (''issues'', json_strings (a_issues r)),
        (''recommendations'', json_strings (a_recommendations r))]"

definition top_level_keys :: "json \<Rightarrow> string list" where
  \<comment> \<open>the key names of a JSON object, in order\<close>
  "top_level_keys j = (case j of JObject kvs \<Rightarrow> map fst kvs | _ \<Rightarrow> [])"

section \<open>The DNS checker: \<open>EmailAuthChecker\<close>\<close>

text \<open>
  The resolver is outside the program: \<open>dns.resolver.resolve(name, type)\<close> is a
  parameter of the model. It answers \<open>Inr\<close> with the texts \<open>str(rdata)\<close> of the
  records in their order, or \<open>Inl\<close> with the text of the \<open>DNSException\<close> it
  raised. Reading \<open>answers[0]\<close> of an answer without records raises
  \<open>IndexError\<close>, which no handler of the class catches.

  The dictionaries of \<open>self.results\<close> are records again; the top-level keys carry
  the prefix \<open>c_\<close>, the nested ones the name of their dictionary.
\<close>

datatype rdtype = TXT | CNAME

type_synonym resolver = "string \<Rightarrow> rdtype \<Rightarrow> string + string list"

datatype error = IndexError

record dkim_found =
  found_selector :: string
  found_record :: string
  found_type :: string

record dkim_recommendation =
  rec_selector :: string
  rec_host :: string
  rec_value :: string
  rec_type :: string

record checker_records =
  records_spf :: "string option"
  records_dkim :: "dkim_found list option"
  records_dmarc :: "string option"

record checker_recommendations =
  recommend_spf :: "string option"
  recommend_dkim :: "dkim_recommendation list option"
  recommend_dmarc :: "string option"

record checker_commands =
  bind9 :: "string list"
  powershell :: "string list"
  azure_cli :: "string list"

record checker_results =
  c_domain :: string
  c_timestamp :: string
  c_records :: checker_records
  c_issues :: "string list"
  c_recommendations :: checker_recommendations
  c_commands :: checker_commands

record checker =
  self_domain :: string
  self_verbose :: bool
  self_results :: checker_results

definition checker_init :: "string \<Rightarrow> bool \<Rightarrow> string \<Rightarrow> checker" where
  \<comment> \<open>\<open>__init__\<close>; the last argument is \<open>datetime.now().isoformat()\<close>\<close>
  "checker_init domain verb now =
     \<lparr>self_domain = domain,
      self_verbose = verb,
      self_results =
        \<lparr>c_domain = domain,
         c_timestamp = now,
         c_records = \<lparr>records_spf = None, records_dkim = None, records_dmarc = None\<rparr>,
         c_issues = [],
         c_recommendations = \<lparr>recommend_spf = None, recommend_dkim = None, recommend_dmarc = None\<rparr>,
         c_commands = \<lparr>bind9 = [], powershell = [], azure_cli = []\<rparr>\<rparr>\<rparr>"

definition add_issue :: "string \<Rightarrow> checker \<Rightarrow> checker" where
  \<comment> \<open>\<open>self.results["issues"].append(issue)\<close>\<close>
  "add_issue issue c = c\<lparr>self_results := (self_results c)\<lparr>c_issues := c_issues (self_results c) @ [issue]\<rparr>\<rparr>"

definition set_records :: "(checker_records \<Rightarrow> checker_records) \<Rightarrow> checker \<Rightarrow> checker" where
  "set_records f c = c\<lparr>self_results := (self_results c)\<lparr>c_records := f (c_records (self_results c))\<rparr>\<rparr>"

definition set_recommendations ::
  "(checker_recommendations \<Rightarrow> checker_recommendations) \<Rightarrow> checker \<Rightarrow> checker" where
  "set_recommendations f c =
     c\<lparr>self_results := (self_results c)\<lparr>c_recommendations := f (c_recommendations (self_results c))\<rparr>\<rparr>"

subsection \<open>The recommended records\<close>

definition recommend_spf_record :: "checker \<Rightarrow> checker" where
  "recommend_spf_record c =
     set_recommendations (\<lambda>r. r\<lparr>recommend_spf := Some ''v=spf1 include:spf.protection.outlook.com -all''\<rparr>) c"

definition re_tenant :: "rx list" where
  \<comment> \<open>\<open>_domainkey\.([^.]+\.onmicrosoft\.com)\.?$\<close>\<close>
  "re_tenant =
     lit ''_domainkey.'' @ [Mark 0, Plus (\<lambda>c. c \<noteq> CHR ''.'')] @ lit ''.onmicrosoft.com'' @
     [Mark 1, Opt (\<lambda>c. c = CHR ''.''), Eos]"

fun first_tenant :: "dkim_found list \<Rightarrow> string option" where
  \<comment> \<open>the loop of \<open>_extract_tenant_domain\<close>: the first CNAME target that matches\<close>
  "first_tenant [] = None"
| "first_tenant (selector_info # rest) =
     (if found_type selector_info = ''CNAME'' then
        (case re_search re_tenant (found_record selector_info) of
           Some m \<Rightarrow> Some (match_group (found_record selector_info) m 1)
         | None \<Rightarrow> first_tenant rest)
      else first_tenant rest)"

definition extract_tenant_domain :: "checker \<Rightarrow> string option" where
  "extract_tenant_domain c =
     (case records_dkim (c_records (self_results c)) of
        None \<Rightarrow> None
      | Some found \<Rightarrow> first_tenant found)"

definition placeholder_issue :: string where
  "placeholder_issue =
     ''N'' @ a_tilde @ ''o foi poss'' @ i_acute @ ''vel determinar o dom'' @ i_acute @
     ''nio do tenant do Microsoft 365. Substitua '' @ quote @ ''tenant.onmicrosoft.com'' @ quote @
     '' pelo seu dom'' @ i_acute @ ''nio real.''"

definition dkim_recommendation_for :: "string \<Rightarrow> string \<Rightarrow> string \<Rightarrow> dkim_recommendation" where
  \<comment> \<open>the dictionary built for one selector\<close>
  "dkim_recommendation_for domain tenant_domain sel =
     \<lparr>rec_selector = sel,
      rec_host = sel @ ''._domainkey.'' @ domain,
      rec_value = sel @ ''-'' @ replace ''.'' ''-'' domain @ ''._domainkey.'' @ tenant_domain,
      rec_type = ''CNAME''\<rparr>"

definition recommend_dkim_records :: "checker \<Rightarrow> checker" where
  "recommend_dkim_records c =
     (let found = extract_tenant_domain c;
          tenant_domain = (if truthy found then str_of_opt found else ''tenant.onmicrosoft.com'');
          c1 = (if truthy found then c else add_issue placeholder_issue c)
      in set_recommendations
           (\<lambda>r. r\<lparr>recommend_dkim :=
                    Some (map (dkim_recommendation_for (self_domain c) tenant_domain)
                            [''selector1'', ''selector2''])\<rparr>) c1)"

definition recommend_dmarc_record :: "checker \<Rightarrow> checker" where
  "recommend_dmarc_record c =
     (let admin_email = ''admin@'' @ self_domain c
      in set_recommendations
           (\<lambda>r. r\<lparr>recommend_dmarc :=
                    Some (''v=DMARC1; p=quarantine; pct=100; rua=mailto:'' @ admin_email @
                          ''; ruf=mailto:'' @ admin_email @ ''; fo=1'')\<rparr>) c)"

subsection \<open>\<open>check_spf\<close>\<close>

definition spf_not_found :: string where
  "spf_not_found = ''Registro SPF n'' @ a_tilde @ ''o encontrado''"

definition spf_multiple :: string where
  "spf_multiple = ''M'' @ u_acute @ ''ltiplos registros SPF encontrados (apenas um '' @
     e_acute @ '' permitido)''"

definition spf_no_include :: string where
  "spf_no_include = ''Registro SPF n'' @ a_tilde @ ''o inclui spf.protection.outlook.com''"

definition spf_no_all :: string where
  "spf_no_all = ''Registro SPF n'' @ a_tilde @ ''o possui mecanismo de prote'' @ c_cedilla @ a_tilde @
     ''o '' @ quote @ ''all'' @ quote @ '' adequado''"

definition spf_candidates :: "string list \<Rightarrow> string list" where
  \<comment> \<open>\<open>[str(rdata).strip('"') for rdata in answers if str(rdata).startswith('"v=spf1')]\<close>\<close>
  "spf_candidates answers =
     map strip_quotes (filter (\<lambda>rdata. startswith rdata (dquote @ ''v=spf1'')) answers)"

definition check_spf :: "resolver \<Rightarrow> checker \<Rightarrow> checker" where
  "check_spf resolve c =
     (case resolve (self_domain c) TXT of
        Inl e \<Rightarrow> recommend_spf_record (add_issue (''Erro ao consultar registro SPF: '' @ e) c)
      | Inr answers \<Rightarrow>
          (case spf_candidates answers of
             [] \<Rightarrow>
               recommend_spf_record
                 (set_records (\<lambda>r. r\<lparr>records_spf := None\<rparr>) (add_issue spf_not_found c))
           | spf_record # others \<Rightarrow>
               (let c1 = (if others \<noteq> [] then add_issue spf_multiple c else c);
                    c2 = set_records (\<lambda>r. r\<lparr>records_spf := Some spf_record\<rparr>) c1;
                    c3 = (if \<not> contains spf_record ''include:spf.protection.outlook.com''
                          then add_issue spf_no_include c2 else c2);
                    c4 = (if \<not> contains spf_record ''~all'' \<and> \<not> contains spf_record ''-all''
                          then add_issue spf_no_all c3 else c3)
                in recommend_spf_record c4)))"

subsection \<open>\<open>check_dkim\<close>\<close>

definition dkim_selector_not_found :: "string \<Rightarrow> string" where
  "dkim_selector_not_found sel =
     ''Registro DKIM para seletor '' @ quote @ sel @ quote @ '' n'' @ a_tilde @ ''o encontrado''"

definition dkim_none_found :: string where
  "dkim_none_found = ''Nenhum registro DKIM para Microsoft 365 encontrado''"

definition dkim_requires_two :: string where
  "dkim_requires_two = ''Microsoft 365 requer dois registros DKIM (selector1 e selector2)''"

definition first_answer :: "string list \<Rightarrow> error + string" where
  \<comment> \<open>\<open>answers[0]\<close>\<close>
  "first_answer answers = (case answers of [] \<Rightarrow> Inl IndexError | a # _ \<Rightarrow> Inr a)"

type_synonym dkim_loop = "dkim_found list \<times> checker"

definition dkim_selector :: "resolver \<Rightarrow> string \<Rightarrow> dkim_loop \<Rightarrow> error + dkim_loop" where
  \<comment> \<open>the body of the loop over the selectors; the state is \<open>found_selectors\<close> and
      the checker\<close>
  "dkim_selector resolve sel st =
     (case st of (found_selectors, c) \<Rightarrow>
        (let dkim_name = sel @ ''._domainkey.'' @ self_domain c
         in case resolve dkim_name CNAME of
              Inr answers \<Rightarrow>
                (case first_answer answers of
                   Inl err \<Rightarrow> Inl err
                 | Inr a \<Rightarrow>
                     Inr (found_selectors @
                            [\<lparr>found_selector = sel, found_record = a, found_type = ''CNAME''\<rparr>], c))
            | Inl _ \<Rightarrow>
                (case resolve dkim_name TXT of
                   Inr answers \<Rightarrow>
                     (case first_answer answers of
                        Inl err \<Rightarrow> Inl err
                      | Inr a \<Rightarrow>
                          Inr (found_selectors @
                                 [\<lparr>found_selector = sel, found_record = strip_quotes a,
                                   found_type = ''TXT''\<rparr>], c))
                 | Inl _ \<Rightarrow> Inr (found_selectors, add_issue (dkim_selector_not_found sel) c))))"

fun dkim_selectors :: "resolver \<Rightarrow> string list \<Rightarrow> dkim_loop \<Rightarrow> error + dkim_loop" where
  "dkim_selectors resolve [] st = Inr st"
| "dkim_selectors resolve (sel # sels) st =
     (case dkim_selector resolve sel st of
        Inl err \<Rightarrow> Inl err
      | Inr st' \<Rightarrow> dkim_selectors resolve sels st')"

definition check_dkim :: "resolver \<Rightarrow> checker \<Rightarrow> error + checker" where
  "check_dkim resolve c =
     (case dkim_selectors resolve [''selector1'', ''selector2''] ([], c) of
        Inl err \<Rightarrow> Inl err
      | Inr (found_selectors, c1) \<Rightarrow>
          (let c2 = set_records (\<lambda>r. r\<lparr>records_dkim := Some found_selectors\<rparr>) c1;
               c3 = (if found_selectors = [] then add_issue dkim_none_found c2
                     else if length found_selectors < 2 then add_issue dkim_requires_two c2
                     else c2)
           in Inr (recommend_dkim_records c3)))"

subsection \<open>\<open>check_dmarc\<close>\<close>

definition re_policy :: "rx list" where
  \<comment> \<open>\<open>p=(\w+)\<close>\<close>
  "re_policy = lit ''p='' @ [Mark 0, Plus is_word, Mark 1]"

definition re_rua :: "rx list" where
  \<comment> \<open>\<open>rua=mailto:([^\s;]+)\<close>\<close>
  "re_rua = lit ''rua=mailto:'' @ [Mark 0, Plus (\<lambda>c. \<not> is_space c \<and> c \<noteq> CHR '';''), Mark 1]"

definition re_pct :: "rx list" where
  \<comment> \<open>\<open>pct=(\d+)\<close>\<close>
  "re_pct = lit ''pct='' @ [Mark 0, Plus is_digit, Mark 1]"

definition dmarc_not_found :: string where
  "dmarc_not_found = ''Registro DMARC n'' @ a_tilde @ ''o encontrado''"

definition dmarc_no_policy :: string where
  "dmarc_no_policy = ''Pol'' @ i_acute @ ''tica DMARC (p=) n'' @ a_tilde @ ''o especificada''"

definition dmarc_policy_none :: string where
  "dmarc_policy_none = ''Pol'' @ i_acute @ ''tica DMARC configurada como '' @ quote @ ''none'' @ quote @
     '' (monitoramento apenas)''"

definition dmarc_no_rua :: string where
  "dmarc_no_rua = ''Relat'' @ o_acute @ ''rios de DMARC (rua=) n'' @ a_tilde @ ''o configurados''"

definition dmarc_partial :: "nat \<Rightarrow> string" where
  "dmarc_partial pct_value =
     ''Porcentagem DMARC (pct='' @ str_of_nat pct_value @ '') menor que 100% - aplica'' @
     c_cedilla @ a_tilde @ ''o parcial''"

definition dmarc_candidates :: "string list \<Rightarrow> string list" where
  \<comment> \<open>\<open>[str(rdata).strip('"') for rdata in answers if str(rdata).startswith('"v=DMARC1')]\<close>\<close>
  "dmarc_candidates answers =
     map strip_quotes (filter (\<lambda>rdata. startswith rdata (dquote @ ''v=DMARC1'')) answers)"

definition check_dmarc :: "resolver \<Rightarrow> checker \<Rightarrow> checker" where
  "check_dmarc resolve c =
     (let dmarc_name = ''_dmarc.'' @ self_domain c
      in case resolve dmarc_name TXT of
           Inl e \<Rightarrow> recommend_dmarc_record (add_issue (''Erro ao consultar registro DMARC: '' @ e) c)
         | Inr answers \<Rightarrow>
             (case dmarc_candidates answers of
                [] \<Rightarrow>
                  recommend_dmarc_record
                    (set_records (\<lambda>r. r\<lparr>records_dmarc := None\<rparr>) (add_issue dmarc_not_found c))
              | dmarc_record # _ \<Rightarrow>
                  (let c1 = set_records (\<lambda>r. r\<lparr>records_dmarc := Some dmarc_record\<rparr>) c;
                       p_value = (case re_search re_policy dmarc_record of
                                    Some p_match \<Rightarrow> Some (match_group dmarc_record p_match 1)
                                  | None \<Rightarrow> None);
                       c2 = (if \<not> truthy p_value then add_issue dmarc_no_policy c1
                             else if p_value = Some ''none'' then add_issue dmarc_policy_none c1
                             else c1);
                       c3 = (case re_search re_rua dmarc_record of
                               None \<Rightarrow> add_issue dmarc_no_rua c2
                             | Some _ \<Rightarrow> c2);
                       pct_value = (case re_search re_pct dmarc_record of
                                      Some pct_match \<Rightarrow> int_of_digits (match_group dmarc_record pct_match 1)
                                    | None \<Rightarrow> 100);
                       c4 = (if pct_value < 100 then add_issue (dmarc_partial pct_value) c3 else c3)
                   in recommend_dmarc_record c4)))"

subsection \<open>\<open>_generate_commands\<close>\<close>

definition dkim_list :: "checker \<Rightarrow> dkim_recommendation list" where
  \<comment> \<open>the recommendations the three loops run over: none when the entry is
      \<open>None\<close> or empty\<close>
  "dkim_list c =
     (case recommend_dkim (c_recommendations (self_results c)) of
        None \<Rightarrow> []
      | Some recs \<Rightarrow> recs)"

definition bind9_commands :: "checker \<Rightarrow> string list" where
  "bind9_commands c =
     (let recs = c_recommendations (self_results c); d = self_domain c
      in (if truthy (recommend_spf recs)
          then [d @ ''. IN TXT '' @ dquote @ str_of_opt (recommend_spf recs) @ dquote]
          else []) @
         map (\<lambda>dkim_rec. rec_host dkim_rec @ ''. IN CNAME '' @ rec_value dkim_rec @ ''.'')
           (dkim_list c) @
         (if truthy (recommend_dmarc recs)
          then [''_dmarc.'' @ d @ ''. IN TXT '' @ dquote @ str_of_opt (recommend_dmarc recs) @ dquote]
          else []))"

definition powershell_commands :: "checker \<Rightarrow> string list" where
  "powershell_commands c =
     (let recs = c_recommendations (self_results c); d = self_domain c
      in (if truthy (recommend_spf recs)
          then [''Add-DnsServerResourceRecord -ZoneName '' @ dquote @ d @ dquote @ '' -Name '' @
                dquote @ ''@'' @ dquote @ '' -Txt -DescriptiveText '' @ dquote @
                str_of_opt (recommend_spf recs) @ dquote @ '' -TimeToLive 01:00:00'']
          else []) @
         map (\<lambda>dkim_rec.
                ''New-DkimSigningConfig -DomainName '' @ dquote @ d @ dquote @
                '' -Enabled $true -KeySize 2048 -Selector'' @
                replace ''selector'' [] (rec_selector dkim_rec) @ '' '' @ dquote @
                rec_host dkim_rec @ dquote)
           (dkim_list c) @
         (if truthy (recommend_dmarc recs)
          then [''Add-DnsServerResourceRecord -ZoneName '' @ dquote @ d @ dquote @ '' -Name '' @
                dquote @ ''_dmarc'' @ dquote @ '' -Txt -DescriptiveText '' @ dquote @
                str_of_opt (recommend_dmarc recs) @ dquote @ '' -TimeToLive 01:00:00'']
          else []))"

definition azure_cli_commands :: "checker \<Rightarrow> string list" where
  "azure_cli_commands c =
     (let recs = c_recommendations (self_results c); d = self_domain c
      in (if truthy (recommend_spf recs)
          then [''az network dns record-set txt add-record -g YourResourceGroup -z '' @ d @
                '' -n '' @ dquote @ ''@'' @ dquote @ '' -v '' @ dquote @
                str_of_opt (recommend_spf recs) @ dquote]
          else []) @
         map (\<lambda>dkim_rec.
                ''az network dns record-set cname set-record -g YourResourceGroup -z '' @ d @
                '' -n '' @ dquote @ rec_selector dkim_rec @ ''._domainkey'' @ dquote @ '' -c '' @
                dquote @ rec_value dkim_rec @ dquote)
           (dkim_list c) @
         (if truthy (recommend_dmarc recs)
          then [''az network dns record-set txt add-record -g YourResourceGroup -z '' @ d @
                '' -n '' @ dquote @ ''_dmarc'' @ dquote @ '' -v '' @ dquote @
                str_of_opt (recommend_dmarc recs) @ dquote]
          else []))"

definition generate_commands :: "checker \<Rightarrow> checker" where
  \<comment> \<open>each list of commands is appended to, in the order SPF, DKIM, DMARC\<close>
  "generate_commands c =
     c\<lparr>self_results := (self_results c)
          \<lparr>c_commands :=
             \<lparr>bind9 = bind9 (c_commands (self_results c)) @ bind9_commands c,
              powershell = powershell (c_commands (self_results c)) @ powershell_commands c,
              azure_cli = azure_cli (c_commands (self_results c)) @ azure_cli_commands c\<rparr>\<rparr>\<rparr>"

subsection \<open>\<open>check_all\<close> and \<open>export_json\<close>\<close>

definition check_all :: "resolver \<Rightarrow> checker \<Rightarrow> error + checker" where
  "check_all resolve c =
     (case check_dkim resolve (check_spf resolve c) of
        Inl err \<Rightarrow> Inl err
      | Inr c1 \<Rightarrow> Inr (generate_commands (check_dmarc resolve c1)))"

definition json_found :: "dkim_found \<Rightarrow> json" where
  "json_found f =
     JObject [(''selector'', JString (found_selector f)), (''record'', JString (found_record f)),
              (''type'', JString (found_type f))]"

definition json_recommendation :: "dkim_recommendation \<Rightarrow> json" where
  "json_recommendation d =
     JObject [(''selector'', JString (rec_selector d)), (''host'', JString (rec_host d)),
              (''value'', JString (rec_value d)), (''type'', JString (rec_type d))]"

definition json_list_opt :: "('a \<Rightarrow> json) \<Rightarrow> 'a list option \<Rightarrow> json" where
  "json_list_opt f v = (case v of None \<Rightarrow> JNull | Some xs \<Rightarrow> JArray (map f xs))"

definition checker_json :: "checker \<Rightarrow> json" where
  \<comment> \<open>what \<open>export_json\<close> dumps: the dictionary \<open>self.results\<close>, its keys in the order
      in which \<open>__init__\<close> wrote them\<close>
  "checker_json c =
     (let r = self_results c in
      JObject
        [(''domain'', JString (c_domain r)),
         (''timestamp'', JString (c_timestamp r)),
         (''records'',
            JObject [(''spf'', json_opt (records_spf (c_records r))),
                     (''dkim'', json_list_opt json_found (records_dkim (c_records r))),
                     (''dmarc'', json_opt (records_dmarc (c_records r)))]),
         (''issues'', json_strings (c_issues r)),
         (''recommendations'',
            JObject [(''spf'', json_opt (recommend_spf (c_recommendations r))),
                     (''dkim'', json_list_opt json_recommendation (recommend_dkim (c_recommendations r))),
                     (''dmarc'', json_opt (recommend_dmarc (c_recommendations r)))]),
         (''commands'',
            JObject [(''bind9'', json_strings (bind9 (c_commands r))),
                     (''powershell'', json_strings (powershell (c_commands r))),
                     (''azure_cli'', json_strings (azure_cli (c_commands r)))])])"

section \<open>Notions used in the statements\<close>

text \<open>
  These definitions are not functions of the source: they name what the properties
  below speak about.
\<close>

definition supplies :: "string \<Rightarrow> string \<Rightarrow> bool" where
  \<comment> \<open>the occurrence holds a token \<open>name=<result>\<close>: the pattern of the mechanism matches\<close>
  "supplies name occ = (re_search (re_mechanism name) occ \<noteq> None)"


definition dkim_verdict_in :: "string \<Rightarrow> dkim_verdict option" where
  \<comment> \<open>the verdict that one occurrence alone gives for DKIM\<close>
  "dkim_verdict_in occ =
     (case re_search (re_mechanism ''dkim'') occ of
        Some m \<Rightarrow> Some \<lparr>result = lower (match_group occ m 1), explanation = reason_of ''dkim'' occ,
                         selector = selector_of occ\<rparr>
      | None \<Rightarrow> None)"







definition endswith :: "string \<Rightarrow> string \<Rightarrow> bool" where
  \<comment> \<open>the text ends in the given suffix\<close>
  "endswith s suffix = (length suffix \<le> length s \<and> drop (length s - length suffix) s = suffix)"

definition spf_raised :: "resolver \<Rightarrow> checker \<Rightarrow> string list" where
  \<comment> \<open>the issues that \<open>check_spf\<close> appends\<close>
  "spf_raised resolve c =
     drop (length (c_issues (self_results c))) (c_issues (self_results (check_spf resolve c)))"

definition no_answer :: resolver where
  \<comment> \<open>a resolver under which every lookup fails\<close>
  "no_answer name t = Inl ''NXDOMAIN''"

definition txt_records :: "string list \<Rightarrow> resolver" where
  \<comment> \<open>a resolver that answers every TXT lookup with the records of the given texts, each
      in double quotes as \<open>str(rdata)\<close> gives it, and fails on every CNAME lookup\<close>
  "txt_records txts name t =
     (if t = TXT then Inr (map (\<lambda>txt. dquote @ txt @ dquote) txts) else Inl ''NXDOMAIN'')"


definition generate_all :: "checker \<Rightarrow> checker" where
  \<comment> \<open>the three recommendations, then the commands, in the order of \<open>check_all\<close>\<close>
  "generate_all c =
     generate_commands (recommend_dmarc_record (recommend_dkim_records (recommend_spf_record c)))"

section \<open>Facts about the occurrences of Authentication-Results\<close>


lemma dkim_verdict_in_None: "dkim_verdict_in occ = None \<longleftrightarrow> \<not> supplies ''dkim'' occ"
  by (simp add: dkim_verdict_in_def supplies_def split: option.splits)
























section \<open>Facts about the matcher\<close>









section \<open>The header extractor\<close>




lemma save_current_closed:
  "\<not> truthy current_field \<Longrightarrow> save_current current_field v r = r"
  by (cases current_field) (simp_all add: save_current_def truthy_def)








section \<open>Properties of the header analyzer\<close>


















section \<open>Properties of the DNS checker\<close>

lemmas checker_updates = add_issue_def set_records_def set_recommendations_def

lemma check_spf_found:
  assumes "resolve (self_domain c) TXT = Inr answers"
    and "spf_candidates answers = spf_record # others"
  shows "spf_raised resolve c =
           (if others \<noteq> [] then [spf_multiple] else []) @
           (if \<not> contains spf_record ''include:spf.protection.outlook.com''
            then [spf_no_include] else []) @
           (if \<not> contains spf_record ''~all'' \<and> \<not> contains spf_record ''-all''
            then [spf_no_all] else [])"
    and "records_spf (c_records (self_results (check_spf resolve c))) = Some spf_record"
  using assms
  by (simp_all add: spf_raised_def check_spf_def Let_def recommend_spf_record_def checker_updates)

lemma spf_messages_distinct:
  "spf_multiple \<noteq> spf_no_include" "spf_multiple \<noteq> spf_no_all" "spf_no_include \<noteq> spf_no_all"
  by (simp_all add: spf_multiple_def spf_no_include_def spf_no_all_def a_tilde_def u_acute_def)

text \<open>
  Claim C4, as amended. For every chosen SPF record, \<open>check_spf\<close> raises one issue
  when the record does not contain \<open>include:spf.protection.outlook.com\<close>, and a
  separate, different issue when the record contains neither \<open>~all\<close> nor \<open>-all\<close>
  anywhere in its text; each is raised at most once and independently of the other.
\<close>

theorem spf_shape_checks:
  assumes "resolve (self_domain c) TXT = Inr answers"
    and "spf_candidates answers = spf_record # others"
  shows "count_list (spf_raised resolve c) spf_no_include =
           (if contains spf_record ''include:spf.protection.outlook.com'' then 0 else 1) \<and>
         count_list (spf_raised resolve c) spf_no_all =
           (if contains spf_record ''~all'' \<or> contains spf_record ''-all'' then 0 else 1) \<and>
         spf_no_include \<noteq> spf_no_all"
  using spf_messages_distinct check_spf_found(1) [of resolve c answers spf_record others] assms
  by simp

theorem spf_shape_checks_witness:
  "count_list (spf_raised (txt_records [''v=spf1 ip4:192.0.2.1''])
                 (checker_init ''example.com'' False ''2024-01-01T00:00:00'')) spf_no_include = 1 \<and>
   count_list (spf_raised (txt_records [''v=spf1 ip4:192.0.2.1''])
                 (checker_init ''example.com'' False ''2024-01-01T00:00:00'')) spf_no_all = 1"
proof -
  let ?c = "checker_init ''example.com'' False ''2024-01-01T00:00:00''"
  let ?answers = "[dquote @ ''v=spf1 ip4:192.0.2.1'' @ dquote]"
  have a: "txt_records [''v=spf1 ip4:192.0.2.1''] (self_domain ?c) TXT = Inr ?answers"
    by (simp add: txt_records_def)
  have b: "spf_candidates ?answers = ''v=spf1 ip4:192.0.2.1'' # []"
    by code_simp
  have c1: "\<not> contains ''v=spf1 ip4:192.0.2.1'' ''include:spf.protection.outlook.com''"
    by code_simp
  have c2: "\<not> (contains ''v=spf1 ip4:192.0.2.1'' ''~all'' \<or> contains ''v=spf1 ip4:192.0.2.1'' ''-all'')"
    by code_simp
  from spf_shape_checks [of "txt_records [''v=spf1 ip4:192.0.2.1'']" ?c ?answers
      "''v=spf1 ip4:192.0.2.1''" "[]"] a b c1 c2
  show ?thesis by simp
qed

theorem spf_all_not_at_end_counterexample:
  "records_spf (c_records (self_results
     (check_spf (txt_records [''v=spf1 include:spf.protection.outlook.com -all ip4:192.0.2.1''])
        (checker_init ''example.com'' False ''2024-01-01T00:00:00'')))) =
     Some ''v=spf1 include:spf.protection.outlook.com -all ip4:192.0.2.1'' \<and>
   \<not> endswith ''v=spf1 include:spf.protection.outlook.com -all ip4:192.0.2.1'' ''~all'' \<and>
   \<not> endswith ''v=spf1 include:spf.protection.outlook.com -all ip4:192.0.2.1'' ''-all'' \<and>
   spf_raised (txt_records [''v=spf1 include:spf.protection.outlook.com -all ip4:192.0.2.1''])
     (checker_init ''example.com'' False ''2024-01-01T00:00:00'') = []"
proof -
  let ?rec = "''v=spf1 include:spf.protection.outlook.com -all ip4:192.0.2.1''"
  let ?c = "checker_init ''example.com'' False ''2024-01-01T00:00:00''"
  have a: "txt_records [?rec] (self_domain ?c) TXT = Inr [dquote @ ?rec @ dquote]"
    by (simp add: txt_records_def)
  have b: "spf_candidates [dquote @ ?rec @ dquote] = ?rec # []"
    by code_simp
  have c1: "contains ?rec ''include:spf.protection.outlook.com''"
    by code_simp
  have c2: "contains ?rec ''-all''"
    by code_simp
  have e: "\<not> endswith ?rec ''~all'' \<and> \<not> endswith ?rec ''-all''"
    by code_simp
  from check_spf_found [of "txt_records [?rec]" ?c "[dquote @ ?rec @ dquote]" ?rec "[]"] a b c1 c2 e
  show ?thesis by simp
qed



lemma dkim_selector_unresolved:
  assumes "\<forall>t. isl (resolve (sel @ ''._domainkey.'' @ self_domain c) t)"
  shows "dkim_selector resolve sel (found, c) =
         Inr (found, add_issue (dkim_selector_not_found sel) c)"
proof -
  from assms obtain e1 where 1: "resolve (sel @ ''._domainkey.'' @ self_domain c) CNAME = Inl e1"
    by (metis sum.collapse(1))
  from assms obtain e2 where 2: "resolve (sel @ ''._domainkey.'' @ self_domain c) TXT = Inl e2"
    by (metis sum.collapse(1))
  from 1 2 show ?thesis
    by (simp add: dkim_selector_def Let_def)
qed












text \<open>
  Claim C8, as amended. The JSON document of the header analyzer has exactly the top-level
  keys \<open>timestamp\<close>, \<open>authentication\<close>, \<open>headers\<close>, \<open>issues\<close>, \<open>recommendations\<close>, and that
  of the DNS checker exactly \<open>domain\<close>, \<open>timestamp\<close>, \<open>records\<close>, \<open>issues\<close>,
  \<open>recommendations\<close>, \<open>commands\<close>, whatever was analysed: only the DNS checker's document
  has a \<open>commands\<close> key, and only the header analyzer's has a \<open>headers\<close> key.
\<close>

theorem json_top_level_keys:
  "top_level_keys (analysis_json (analyze_header header_text (analyzer_init now))) =
     [''timestamp'', ''authentication'', ''headers'', ''issues'', ''recommendations''] \<and>
   top_level_keys (checker_json (generate_all (checker_init domain verb now))) =
     [''domain'', ''timestamp'', ''records'', ''issues'', ''recommendations'', ''commands''] \<and>
   (\<forall>c. check_all resolve (checker_init domain verb now) = Inr c \<longrightarrow>
        top_level_keys (checker_json c) =
          [''domain'', ''timestamp'', ''records'', ''issues'', ''recommendations'', ''commands''])"
  by (simp add: top_level_keys_def analysis_json_def checker_json_def Let_def)

theorem json_top_level_keys_witness:
  "\<exists>c. check_all no_answer (checker_init ''example.com'' False ''2024-01-01T00:00:00'') = Inr c \<and>
       top_level_keys (checker_json c) =
         [''domain'', ''timestamp'', ''records'', ''issues'', ''recommendations'', ''commands'']"
proof -
  let ?c = "checker_init ''example.com'' False ''2024-01-01T00:00:00''"
  have sd: "self_domain (check_spf no_answer ?c) = ''example.com''"
    by (simp add: check_spf_def no_answer_def recommend_spf_record_def checker_updates
        checker_init_def)
  have "\<exists>c'. check_dkim no_answer (check_spf no_answer ?c) = Inr c'"
    using dkim_selector_unresolved [of no_answer "''selector1''" "check_spf no_answer ?c" "[]"]
      dkim_selector_unresolved [of no_answer "''selector2''"
        "add_issue (dkim_selector_not_found ''selector1'') (check_spf no_answer ?c)" "[]"]
    by (simp only: check_dkim_def dkim_selectors.simps) (simp add: no_answer_def Let_def)
  then obtain c where "check_all no_answer ?c = Inr c"
    by (auto simp add: check_all_def)
  with json_top_level_keys [of "[]" "''2024-01-01T00:00:00''" "''example.com''" False no_answer]
  show ?thesis by simp
qed

theorem header_json_has_no_commands_counterexample:
  "top_level_keys (analysis_json (analyze_header ''From: user@example.org''
      (analyzer_init ''2024-01-01T00:00:00''))) =
     [''timestamp'', ''authentication'', ''headers'', ''issues'', ''recommendations''] \<and>
   ''commands'' \<notin> set (top_level_keys (analysis_json (analyze_header ''From: user@example.org''
      (analyzer_init ''2024-01-01T00:00:00''))))"
  by (simp add: top_level_keys_def analysis_json_def)

end
